theory Spec2Isabelle
  imports Main "HOL-Library.Sublist" "HOL-Library.Log_Nat"
begin

section \<open>Python values and strings\<close>

text \<open>
  The coercion functions of \<^verbatim>\<open>src/data/models/convert.py\<close> receive one cell of a
  pandas row: \<^verbatim>\<open>None\<close>, a \<^verbatim>\<open>str\<close>, a \<^verbatim>\<open>float\<close> (a missing cell is the float NaN),
  an \<^verbatim>\<open>int\<close> or a \<^verbatim>\<open>bool\<close>.  A Python \<^verbatim>\<open>str\<close> is modelled as a \<open>string\<close> whose
  characters are the code points 0..255; the character classes below are Python's
  on that range.
\<close>

datatype pyfloat = Finite bool nat int | Infinity bool | NaN
  \<comment> \<open>\<open>Finite neg m e\<close> is the binary64 value \<open>(-1)^neg * m * 2^e\<close>; \<open>Infinity neg\<close> is \<open>\<plusminus>inf\<close>\<close>

datatype cell = Missing | Text string | Float pyfloat | Integer int | Boolean bool
  \<comment> \<open>\<open>Missing\<close> is \<^verbatim>\<open>None\<close>, what \<^verbatim>\<open>row.get\<close> returns for an absent column\<close>

datatype pyerr = ValueError | TypeError | OverflowError

definition quote :: char where
  "quote = CHR 0x27"

definition is_digit :: "char \<Rightarrow> bool" where
  "is_digit c = (48 \<le> (of_char c :: nat) \<and> (of_char c :: nat) \<le> 57)"

definition digit_val :: "char \<Rightarrow> nat" where
  "digit_val c = of_char c - 48"

definition py_isspace :: "char \<Rightarrow> bool" where
  \<comment> \<open>\<^verbatim>\<open>str.isspace\<close>, the characters \<^verbatim>\<open>str.strip()\<close> removes\<close>
  "py_isspace c = (let n = (of_char c :: nat) in
     (9 \<le> n \<and> n \<le> 13) \<or> (28 \<le> n \<and> n \<le> 32) \<or> n = 133 \<or> n = 160)"

definition py_strip :: "string \<Rightarrow> string" where
  "py_strip s = rev (dropWhile py_isspace (rev (dropWhile py_isspace s)))"

definition py_lower_char :: "char \<Rightarrow> char" where
  "py_lower_char c = (let n = (of_char c :: nat) in
     if (65 \<le> n \<and> n \<le> 90) \<or> (192 \<le> n \<and> n \<le> 222 \<and> n \<noteq> 215) then char_of (n + 32) else c)"

definition py_lower :: "string \<Rightarrow> string" where
  "py_lower s = map py_lower_char s"

fun py_contains :: "string \<Rightarrow> string \<Rightarrow> bool" where
  \<comment> \<open>\<^verbatim>\<open>sub in s\<close>\<close>
  "py_contains sub [] = (sub = [])"
| "py_contains sub (c # cs) = (prefix sub (c # cs) \<or> py_contains sub cs)"

definition py_replace_char :: "char \<Rightarrow> string \<Rightarrow> string \<Rightarrow> string" where
  \<comment> \<open>\<^verbatim>\<open>s.replace(old, new)\<close> for a pattern \<open>old\<close> of one character\<close>
  "py_replace_char old new s = concat (map (\<lambda>c. if c = old then new else [c]) s)"

fun split_on :: "char \<Rightarrow> string \<Rightarrow> string list" where
  \<comment> \<open>\<^verbatim>\<open>s.split(sep)\<close> for a separator of one character: never the empty list\<close>
  "split_on sep [] = [[]]"
| "split_on sep (c # cs) =
     (if c = sep then [] # split_on sep cs
      else (case split_on sep cs of [] \<Rightarrow> [[c]] | l # ls \<Rightarrow> (c # l) # ls))"

fun join_with :: "string \<Rightarrow> string list \<Rightarrow> string" where
  \<comment> \<open>\<^verbatim>\<open>sep.join(parts)\<close>\<close>
  "join_with sep [] = []"
| "join_with sep [l] = l"
| "join_with sep (l # m # ls) = l @ sep @ join_with sep (m # ls)"

subsection \<open>Integers as decimal text\<close>

definition digit_char :: "nat \<Rightarrow> char" where
  "digit_char d = ''0123456789'' ! d"

function str_nat :: "nat \<Rightarrow> string" where
  "str_nat n = (if n < 10 then [digit_char n] else str_nat (n div 10) @ [digit_char (n mod 10)])"
  by pat_completeness auto
termination
  by (relation "measure id") auto

declare str_nat.simps [simp del]

definition str_int :: "int \<Rightarrow> string" where
  \<comment> \<open>\<^verbatim>\<open>str(i)\<close> of a Python int\<close>
  "str_int i = (if i < 0 then CHR ''-'' # str_nat (nat (- i)) else str_nat (nat i))"

fun nat_of_digits :: "nat \<Rightarrow> string \<Rightarrow> nat" where
  \<comment> \<open>the number a run of decimal digits denotes, continuing from \<open>acc\<close>\<close>
  "nat_of_digits acc [] = acc"
| "nat_of_digits acc (c # cs) = nat_of_digits (10 * acc + digit_val c) cs"

section \<open>Binary64 floats: rounding, parsing, printing\<close>

definition round_half_even :: "nat \<Rightarrow> nat \<Rightarrow> nat" where
  \<comment> \<open>the integer nearest to \<open>n / d\<close>, a tie going to the even one\<close>
  "round_half_even n d = (let q = n div d; r = n mod d in
     if d < 2 * r \<or> (2 * r = d \<and> odd q) then q + 1 else q)"

definition ilog :: "nat \<Rightarrow> nat \<Rightarrow> nat \<Rightarrow> int" where
  \<comment> \<open>\<open>\<lfloor>log\<^sub>b (n / d)\<rfloor>\<close> for positive \<open>n\<close>, \<open>d\<close>\<close>
  "ilog b n d = (let k = int (floorlog b n) - int (floorlog b d) in
     if 0 \<le> k then (if d * b ^ nat k \<le> n then k else k - 1)
     else (if d \<le> n * b ^ nat (- k) then k else k - 1))"

definition round_binary64 :: "nat \<Rightarrow> nat \<Rightarrow> (nat \<times> int) option" where
  \<comment> \<open>the binary64 nearest to \<open>n / d\<close> (round half to even) as mantissa and exponent,
      \<open>None\<close> when it rounds beyond the largest finite value\<close>
  "round_binary64 n d =
     (if n = 0 then Some (0, 0)
      else let e = max (ilog 2 n d - 52) (- 1074);
               m = (if 0 \<le> e then round_half_even n (d * 2 ^ nat e)
                    else round_half_even (n * 2 ^ nat (- e)) d);
               e' = (if m = 2 ^ 53 then e + 1 else e);
               m' = (if m = 2 ^ 53 then 2 ^ 52 else m)
           in if 971 < e' then None else if m' = 0 then Some (0, 0) else Some (m', e'))"

definition scaled :: "nat \<Rightarrow> nat \<Rightarrow> int \<Rightarrow> nat \<times> nat" where
  \<comment> \<open>\<open>m * b^e\<close> as a fraction of naturals\<close>
  "scaled m b e = (if 0 \<le> e then (m * b ^ nat e, 1) else (m, b ^ nat (- e)))"

definition float_of_fraction :: "bool \<Rightarrow> nat \<times> nat \<Rightarrow> pyfloat" where
  \<comment> \<open>what the C library conversion gives: overflow is \<open>\<plusminus>inf\<close>, not an exception\<close>
  "float_of_fraction neg q =
     (case round_binary64 (fst q) (snd q) of None \<Rightarrow> Infinity neg | Some (m, e) \<Rightarrow> Finite neg m e)"

subsection \<open>\<^verbatim>\<open>float(s)\<close> of a string\<close>

definition float_ascii :: "char \<Rightarrow> char" where
  \<comment> \<open>before parsing, CPython turns non-ASCII white space into a blank and any other
      non-ASCII character (none is a decimal digit below 256) into a question mark\<close>
  "float_ascii c = (let n = (of_char c :: nat) in
     if n < 127 then c else if n = 133 \<or> n = 160 then CHR '' '' else CHR ''?'')"

definition is_c_space :: "char \<Rightarrow> bool" where
  \<comment> \<open>\<^verbatim>\<open>Py_ISSPACE\<close>\<close>
  "is_c_space c = (let n = (of_char c :: nat) in (9 \<le> n \<and> n \<le> 13) \<or> n = 32)"

fun remove_underscores :: "char \<Rightarrow> string \<Rightarrow> string option" where
  \<comment> \<open>an underscore is allowed only between two digits; \<open>prev\<close> is the character before\<close>
  "remove_underscores prev [] = (if prev = CHR ''_'' then None else Some [])"
| "remove_underscores prev (c # cs) =
     (if c = CHR ''_'' then (if is_digit prev then remove_underscores c cs else None)
      else if prev = CHR ''_'' \<and> \<not> is_digit c then None
      else map_option ((#) c) (remove_underscores c cs))"

definition take_sign :: "string \<Rightarrow> bool \<times> string" where
  "take_sign s = (case s of [] \<Rightarrow> (False, [])
     | c # cs \<Rightarrow> if c = CHR ''-'' then (True, cs) else if c = CHR ''+'' then (False, cs) else (False, s))"

definition match_nocase :: "string \<Rightarrow> string \<Rightarrow> bool" where
  \<comment> \<open>\<open>s\<close> starts with the lower-case word \<open>w\<close>, letter case ignored\<close>
  "match_nocase w s = (length w \<le> length s \<and> py_lower (take (length w) s) = w)"

definition parse_inf_or_nan :: "string \<Rightarrow> pyfloat option" where
  "parse_inf_or_nan s = (let (neg, r) = take_sign s in
     if match_nocase ''inf'' r then
       (let r' = drop 3 r; r'' = (if match_nocase ''inity'' r' then drop 5 r' else r')
        in if r'' = [] then Some (Infinity neg) else None)
     else if match_nocase ''nan'' r then (if drop 3 r = [] then Some NaN else None)
     else None)"

definition parse_exponent :: "string \<Rightarrow> int \<times> string" where
  \<comment> \<open>an exponent part, or nothing consumed when it is not well formed\<close>
  "parse_exponent s = (case s of [] \<Rightarrow> (0, s)
     | c # cs \<Rightarrow>
        if c = CHR ''e'' \<or> c = CHR ''E'' then
          (let (neg, r) = take_sign cs; ds = takeWhile is_digit r in
           if ds = [] then (0, s)
           else ((if neg then - int (nat_of_digits 0 ds) else int (nat_of_digits 0 ds)),
                 dropWhile is_digit r))
        else (0, s))"

definition parse_float_literal :: "string \<Rightarrow> pyfloat option" where
  \<comment> \<open>sign, digits with an optional point, optional exponent, or inf / infinity / nan;
      the value is the correctly rounded binary64\<close>
  "parse_float_literal s = (let (neg, r) = take_sign s;
        ip = takeWhile is_digit r; r1 = dropWhile is_digit r;
        has_point = (case r1 of [] \<Rightarrow> False | c # _ \<Rightarrow> c = CHR ''.'');
        fp = (if has_point then takeWhile is_digit (tl r1) else []);
        r2 = (if has_point then dropWhile is_digit (tl r1) else r1)
     in if ip = [] \<and> fp = [] then parse_inf_or_nan s
        else (let (ex, r3) = parse_exponent r2 in
              if r3 = [] then
                Some (float_of_fraction neg (scaled (nat_of_digits 0 (ip @ fp)) 10 (ex - int (length fp))))
              else None))"

definition float_of_string :: "string \<Rightarrow> pyerr + pyfloat" where
  \<comment> \<open>\<^verbatim>\<open>float(s)\<close> for a \<^verbatim>\<open>str\<close>\<close>
  "float_of_string s = (let s1 = dropWhile is_c_space (map float_ascii s) in
     if s1 = [] then Inl ValueError
     else (case remove_underscores (CHR 0x00) (rev (dropWhile is_c_space (rev s1))) of
             None \<Rightarrow> Inl ValueError
           | Some t \<Rightarrow> (case parse_float_literal t of None \<Rightarrow> Inl ValueError | Some f \<Rightarrow> Inr f)))"

definition float_of_int :: "int \<Rightarrow> pyerr + pyfloat" where
  \<comment> \<open>\<^verbatim>\<open>float(i)\<close>: an int too large for a float raises\<close>
  "float_of_int i = (case round_binary64 (nat \<bar>i\<bar>) 1 of
     None \<Rightarrow> Inl OverflowError | Some (m, e) \<Rightarrow> Inr (Finite (i < 0) m e))"

definition py_float :: "cell \<Rightarrow> pyerr + pyfloat" where
  \<comment> \<open>\<^verbatim>\<open>float(value)\<close>\<close>
  "py_float v = (case v of
       Missing \<Rightarrow> Inl TypeError
     | Text s \<Rightarrow> float_of_string s
     | Float f \<Rightarrow> Inr f
     | Integer i \<Rightarrow> float_of_int i
     | Boolean b \<Rightarrow> Inr (if b then Finite False (2 ^ 52) (- 52) else Finite False 0 0))"

definition is_integer :: "pyfloat \<Rightarrow> bool" where
  \<comment> \<open>\<^verbatim>\<open>f.is_integer()\<close>\<close>
  "is_integer f = (case f of
       Finite neg m e \<Rightarrow> (if 0 \<le> e then True else m mod 2 ^ nat (- e) = 0)
     | Infinity neg \<Rightarrow> False
     | NaN \<Rightarrow> False)"

definition int_of_float :: "pyfloat \<Rightarrow> pyerr + int" where
  \<comment> \<open>\<^verbatim>\<open>int(f)\<close>: truncation toward zero; infinity and NaN raise\<close>
  "int_of_float f = (case f of
       Finite neg m e \<Rightarrow>
         (let a = (if 0 \<le> e then m * 2 ^ nat e else m div 2 ^ nat (- e))
          in Inr (if neg then - int a else int a))
     | Infinity neg \<Rightarrow> Inl OverflowError
     | NaN \<Rightarrow> Inl ValueError)"

subsection \<open>\<^verbatim>\<open>str(f)\<close> of a float\<close>

definition roundtrips :: "nat \<times> int \<Rightarrow> nat \<Rightarrow> int \<Rightarrow> bool" where
  \<comment> \<open>the decimal \<open>c * 10^s\<close> reads back as the binary64 \<open>x\<close>\<close>
  "roundtrips x c s = (c \<noteq> 0 \<and> round_binary64 (fst (scaled c 10 s)) (snd (scaled c 10 s)) = Some x)"

function shortest_from :: "nat \<Rightarrow> nat \<times> nat \<Rightarrow> nat \<times> int \<Rightarrow> int \<Rightarrow> nat \<times> int" where
  \<comment> \<open>the shortest decimal \<open>c * 10^s\<close> that reads back as \<open>x = n / d\<close>, the nearest one among
      those of that length (a tie going to the even digit), trying \<open>k\<close>, \<open>k + 1\<close>, ...
      significant digits; \<open>p\<close> is \<open>\<lfloor>log\<^sub>1\<^sub>0 x\<rfloor>\<close>.  Seventeen digits always suffice.\<close>
  "shortest_from k q x p =
     (let s = p - (int k - 1);
          N = (if 0 \<le> s then fst q else fst q * 10 ^ nat (- s));
          D = (if 0 \<le> s then snd q * 10 ^ nat s else snd q);
          lo = N div D; hi = lo + 1;
          oklo = roundtrips x lo s; okhi = roundtrips x hi s
      in if 17 \<le> k then (round_half_even N D, s)
         else if oklo \<and> okhi then
           (if 2 * (N mod D) < D \<or> (2 * (N mod D) = D \<and> even lo) then (lo, s) else (hi, s))
         else if oklo then (lo, s)
         else if okhi then (hi, s)
         else shortest_from (Suc k) q x p)"
  by pat_completeness auto
termination
  by (relation "measure (\<lambda>(k, q, x, p). 17 - k)") auto

declare shortest_from.simps [simp del]

function strip_zeros :: "nat \<Rightarrow> int \<Rightarrow> nat \<times> int" where
  \<comment> \<open>trailing zeros of the digits move into the exponent\<close>
  "strip_zeros c s = (if c \<noteq> 0 \<and> c mod 10 = 0 then strip_zeros (c div 10) (s + 1) else (c, s))"
  by pat_completeness auto
termination
  by (relation "measure fst") auto

declare strip_zeros.simps [simp del]

definition format_repr :: "string \<Rightarrow> int \<Rightarrow> string" where
  \<comment> \<open>the digits \<open>ds\<close> with the decimal point after the first \<open>decpt\<close> of them, as
      \<^verbatim>\<open>repr\<close> writes it: exponent form when \<open>decpt \<le> -4\<close> or \<open>decpt > 16\<close>\<close>
  "format_repr ds decpt =
     (if decpt \<le> - 4 \<or> 16 < decpt then
        take 1 ds @ (if 1 < length ds then CHR ''.'' # drop 1 ds else []) @ ''e''
          @ (if decpt - 1 < 0 then ''-'' else ''+'')
          @ (if \<bar>decpt - 1\<bar> < 10 then ''0'' else []) @ str_nat (nat \<bar>decpt - 1\<bar>)
      else if decpt \<le> 0 then ''0.'' @ replicate (nat (- decpt)) (CHR ''0'') @ ds
      else if int (length ds) \<le> decpt then ds @ replicate (nat decpt - length ds) (CHR ''0'') @ ''.0''
      else take (nat decpt) ds @ ''.'' @ drop (nat decpt) ds)"

definition float_repr :: "pyfloat \<Rightarrow> string" where
  \<comment> \<open>\<^verbatim>\<open>str(f)\<close> = \<^verbatim>\<open>repr(f)\<close>: the shortest digits that read back as \<open>f\<close>\<close>
  "float_repr f = (case f of
       NaN \<Rightarrow> ''nan''
     | Infinity neg \<Rightarrow> (if neg then ''-inf'' else ''inf'')
     | Finite neg m e \<Rightarrow> (if neg then ''-'' else []) @
         (case round_binary64 (fst (scaled m 2 e)) (snd (scaled m 2 e)) of
            None \<Rightarrow> ''inf''
          | Some x \<Rightarrow>
             (if fst x = 0 then ''0.0''
              else (let q = scaled (fst x) 2 (snd x);
                        cs = shortest_from 1 q x (ilog 10 (fst q) (snd q));
                        cz = strip_zeros (fst cs) (snd cs);
                        ds = str_nat (fst cz)
                    in format_repr ds (int (length ds) + snd cz)))))"

definition py_str :: "cell \<Rightarrow> string" where
  \<comment> \<open>\<^verbatim>\<open>str(value)\<close>\<close>
  "py_str v = (case v of
       Missing \<Rightarrow> ''None''
     | Text s \<Rightarrow> s
     | Float f \<Rightarrow> float_repr f
     | Integer i \<Rightarrow> str_int i
     | Boolean b \<Rightarrow> (if b then ''True'' else ''False''))"

definition pd_isna :: "cell \<Rightarrow> bool" where
  \<comment> \<open>\<^verbatim>\<open>pd.isna(value)\<close> on a scalar: \<^verbatim>\<open>None\<close> and the float NaN\<close>
  "pd_isna v = (case v of Missing \<Rightarrow> True | Float f \<Rightarrow> f = NaN | _ \<Rightarrow> False)"

definition is_empty_str :: "cell \<Rightarrow> bool" where
  \<comment> \<open>\<^verbatim>\<open>value == ''\<close>\<close>
  "is_empty_str v = (case v of Text s \<Rightarrow> s = [] | _ \<Rightarrow> False)"

section \<open>Value coercion (\<^verbatim>\<open>src/data/models/convert.py\<close>)\<close>

definition escape_sql_string :: "cell \<Rightarrow> string" where
  "escape_sql_string v =
     (if pd_isna v \<or> is_empty_str v \<or> py_strip (py_str v) = [] then ''NULL''
      else [quote] @ py_replace_char quote [quote, quote] (py_str v) @ [quote])"

definition number_try_block :: "cell \<Rightarrow> bool \<Rightarrow> pyerr + string" where
  \<comment> \<open>the body of the \<^verbatim>\<open>try\<close> of \<^verbatim>\<open>convert_to_sql_number\<close>; \<open>Inl\<close> is the exception raised\<close>
  "number_try_block v is_decimal =
     (if py_contains ''e+'' (py_lower (py_str v)) \<or> py_contains ''e-'' (py_lower (py_str v)) then
        (case py_float v of
           Inl err \<Rightarrow> Inl err
         | Inr num_value \<Rightarrow>
            if is_decimal then Inr (float_repr num_value)
            else if is_integer num_value then
              (case int_of_float num_value of Inl err \<Rightarrow> Inl err | Inr i \<Rightarrow> Inr (str_int i))
            else Inr (float_repr num_value))
      else if is_decimal then
        (case py_float v of Inl err \<Rightarrow> Inl err | Inr f \<Rightarrow> Inr (float_repr f))
      else
        (case py_float v of
           Inl err \<Rightarrow> Inl err
         | Inr f \<Rightarrow> (case int_of_float f of Inl err \<Rightarrow> Inl err | Inr i \<Rightarrow> Inr (str_int i))))"

definition convert_to_sql_number :: "cell \<Rightarrow> bool \<Rightarrow> pyerr + string" where
  \<comment> \<open>\<^verbatim>\<open>except (ValueError, TypeError): return 'NULL'\<close>; any other exception reaches the caller\<close>
  "convert_to_sql_number v is_decimal =
     (if pd_isna v \<or> is_empty_str v \<or> py_strip (py_str v) = [] then Inr ''NULL''
      else (case number_try_block v is_decimal of
              Inl ValueError \<Rightarrow> Inr ''NULL''
            | Inl TypeError \<Rightarrow> Inr ''NULL''
            | Inl OverflowError \<Rightarrow> Inl OverflowError
            | Inr s \<Rightarrow> Inr s))"

subsection \<open>\<^verbatim>\<open>datetime.strptime(date_str, '%Y-%m-%d')\<close>\<close>

text \<open>
  \<^verbatim>\<open>strptime\<close> matches the text against the regular expression
  \<^verbatim>\<open>(\d\d\d\d)-(1[0-2]|0[1-9]|[1-9])-(3[0-1]|[1-2]\d|0[1-9]|[1-9]| [1-9])\<close>
  from its start, raises \<^verbatim>\<open>ValueError\<close> when there is no match or when text remains
  after the match, and then builds the date, which raises \<^verbatim>\<open>ValueError\<close> for a year 0 or
  a day the month does not have.
\<close>

definition digit_in :: "char \<Rightarrow> nat \<Rightarrow> nat \<Rightarrow> bool" where
  "digit_in c lo hi = (is_digit c \<and> lo \<le> digit_val c \<and> digit_val c \<le> hi)"

definition match_year :: "string \<Rightarrow> (nat \<times> string) option" where
  "match_year s = (if 4 \<le> length s \<and> list_all is_digit (take 4 s)
     then Some (nat_of_digits 0 (take 4 s), drop 4 s) else None)"

definition month_alternatives :: "string \<Rightarrow> (nat \<times> string) list" where
  \<comment> \<open>the matches of \<^verbatim>\<open>1[0-2]|0[1-9]|[1-9]\<close> at the start of \<open>s\<close>, in the order the engine tries them\<close>
  "month_alternatives s =
     (case s of
        c1 # c2 # r \<Rightarrow>
          (if c1 = CHR ''1'' \<and> digit_in c2 0 2 then [(10 + digit_val c2, r)] else []) @
          (if c1 = CHR ''0'' \<and> digit_in c2 1 9 then [(digit_val c2, r)] else [])
      | _ \<Rightarrow> []) @
     (case s of c1 # r \<Rightarrow> (if digit_in c1 1 9 then [(digit_val c1, r)] else []) | [] \<Rightarrow> [])"

definition day_alternatives :: "string \<Rightarrow> (nat \<times> string) list" where
  \<comment> \<open>the matches of \<^verbatim>\<open>3[0-1]|[1-2]\d|0[1-9]|[1-9]| [1-9]\<close> at the start of \<open>s\<close>, in order\<close>
  "day_alternatives s =
     (case s of
        c1 # c2 # r \<Rightarrow>
          (if c1 = CHR ''3'' \<and> digit_in c2 0 1 then [(30 + digit_val c2, r)] else []) @
          (if digit_in c1 1 2 \<and> is_digit c2 then [(10 * digit_val c1 + digit_val c2, r)] else []) @
          (if c1 = CHR ''0'' \<and> digit_in c2 1 9 then [(digit_val c2, r)] else [])
      | _ \<Rightarrow> []) @
     (case s of c1 # r \<Rightarrow> (if digit_in c1 1 9 then [(digit_val c1, r)] else []) | [] \<Rightarrow> []) @
     (case s of
        c1 # c2 # r \<Rightarrow> (if c1 = CHR '' '' \<and> digit_in c2 1 9 then [(digit_val c2, r)] else [])
      | _ \<Rightarrow> [])"

definition dash_then_day :: "nat \<times> string \<Rightarrow> (nat \<times> nat \<times> string) list" where
  \<comment> \<open>after a month: the dash, then the day alternatives\<close>
  "dash_then_day mr =
     (case snd mr of
        [] \<Rightarrow> []
      | c # r \<Rightarrow> (if c = CHR ''-'' then map (\<lambda>dr. (fst mr, fst dr, snd dr)) (day_alternatives r) else []))"

definition regex_ymd :: "string \<Rightarrow> (nat \<times> nat \<times> nat \<times> string) option" where
  \<comment> \<open>the first match the backtracking engine finds: year, month, day and the text left over\<close>
  "regex_ymd s =
     (case match_year s of
        None \<Rightarrow> None
      | Some (y, r) \<Rightarrow>
         (case r of
            [] \<Rightarrow> None
          | c # r' \<Rightarrow>
             if c = CHR ''-'' then
               (case concat (map dash_then_day (month_alternatives r')) of
                  [] \<Rightarrow> None
                | (m, d, rest) # _ \<Rightarrow> Some (y, m, d, rest))
             else None))"

definition is_leap :: "nat \<Rightarrow> bool" where
  "is_leap y = (y mod 400 = 0 \<or> (y mod 4 = 0 \<and> y mod 100 \<noteq> 0))"

definition days_in_month :: "nat \<Rightarrow> nat \<Rightarrow> nat" where
  "days_in_month y m =
     (if m = 2 then (if is_leap y then 29 else 28)
      else if m = 4 \<or> m = 6 \<or> m = 9 \<or> m = 11 then 30 else 31)"

definition strptime_ymd :: "string \<Rightarrow> pyerr + (nat \<times> nat \<times> nat)" where
  "strptime_ymd s =
     (case regex_ymd s of
        None \<Rightarrow> Inl ValueError
      | Some (y, m, d, rest) \<Rightarrow>
         if rest \<noteq> [] then Inl ValueError
         else if 1 \<le> y \<and> 1 \<le> m \<and> m \<le> 12 \<and> 1 \<le> d \<and> d \<le> days_in_month y m then Inr (y, m, d)
         else Inl ValueError)"

definition convert_to_sql_date :: "cell \<Rightarrow> pyerr + string" where
  "convert_to_sql_date v =
     (if pd_isna v \<or> is_empty_str v \<or> py_strip (py_str v) = [] then Inr ''NULL''
      else (let date_str = py_strip (py_str v) in
            case strptime_ymd date_str of
              Inr _ \<Rightarrow> Inr ([quote] @ date_str @ [quote])
            | Inl ValueError \<Rightarrow> Inr ''NULL''
            | Inl TypeError \<Rightarrow> Inr ''NULL''
            | Inl OverflowError \<Rightarrow> Inl OverflowError))"

definition convert_to_sql_boolean :: "cell \<Rightarrow> string" where
  "convert_to_sql_boolean v =
     (if pd_isna v \<or> is_empty_str v \<or> py_strip (py_str v) = [] then ''NULL''
      else (let str_value = py_lower (py_strip (py_str v)) in
            if str_value \<in> set [''true'', ''1'', ''yes'', ''t''] then ''TRUE''
            else if str_value \<in> set [''false'', ''0'', ''no'', ''f''] then ''FALSE''
            else ''NULL''))"

subsection \<open>Reading a string literal back\<close>

function quote_runs :: "string \<Rightarrow> nat list" where
  \<comment> \<open>the lengths of the maximal runs of quote characters, left to right\<close>
  "quote_runs [] = []"
| "quote_runs (c # cs) =
     (if c = quote then Suc (length (takeWhile (\<lambda>d. d = quote) cs)) # quote_runs (dropWhile (\<lambda>d. d = quote) cs)
      else quote_runs cs)"
  by pat_completeness auto
termination
  by (relation "measure length") (auto simp: less_Suc_eq_le length_dropWhile_le)

fun collapse_quotes :: "string \<Rightarrow> string" where
  \<comment> \<open>each doubled quote becomes one quote, left to right\<close>
  "collapse_quotes [] = []"
| "collapse_quotes [c] = [c]"
| "collapse_quotes (c # d # cs) =
     (if c = quote \<and> d = quote then quote # collapse_quotes cs else c # collapse_quotes (d # cs))"

definition decode_literal :: "string \<Rightarrow> string option" where
  \<comment> \<open>strip the outer quotes, collapse the doubled ones; \<open>None\<close> for text that is not quoted\<close>
  "decode_literal l =
     (if 2 \<le> length l \<and> hd l = quote \<and> last l = quote then Some (collapse_quotes (butlast (tl l)))
      else None)"

fun scan_body :: "string \<Rightarrow> nat option" where
  \<comment> \<open>after the opening quote: the number of characters up to and including the closing
      quote, a doubled quote being an escaped quote; \<open>None\<close> when the literal never closes\<close>
  "scan_body [] = None"
| "scan_body [c] = (if c = quote then Some 1 else None)"
| "scan_body (c # d # cs) =
     (if c = quote then (if d = quote then map_option (\<lambda>n. n + 2) (scan_body cs) else Some 1)
      else map_option Suc (scan_body (d # cs)))"

definition literal_length :: "string \<Rightarrow> nat option" where
  \<comment> \<open>an SQL scanner reading a string literal at the start of \<open>l\<close>: how many characters
      the literal takes\<close>
  "literal_length l =
     (case l of [] \<Rightarrow> None | c # cs \<Rightarrow> if c = quote then map_option Suc (scan_body cs) else None)"

section \<open>Dialect translation (\<^verbatim>\<open>src/db/setup_database.py\<close>)\<close>

text \<open>
  The translator is a chain of \<^verbatim>\<open>re.sub\<close> calls.  A pattern is modelled by its matcher:
  the text left after the match of the pattern at the start of the text, \<open>None\<close> when
  the pattern does not match there.  The five patterns have at most one way to match at a
  position (\<^verbatim>\<open>\d+\<close> is greedy and followed by a character that is not a digit, \<^verbatim>\<open>.*?;\<close>
  stops at the first semicolon), and none matches the empty string.
\<close>

type_synonym matcher = "string \<Rightarrow> string option"

definition lit :: "string \<Rightarrow> matcher" where
  \<comment> \<open>the literal text \<open>w\<close>\<close>
  "lit w s = (if prefix w s then Some (drop (length w) s) else None)"

definition digits1 :: matcher where
  \<comment> \<open>\<^verbatim>\<open>\d+\<close>\<close>
  "digits1 s = (if takeWhile is_digit s = [] then None else Some (dropWhile is_digit s))"

definition until_semicolon :: matcher where
  \<comment> \<open>\<^verbatim>\<open>.*?;\<close> under \<^verbatim>\<open>re.DOTALL\<close>: any characters up to and including the first semicolon\<close>
  "until_semicolon s =
     (if CHR '';'' \<in> set s then Some (drop 1 (dropWhile (\<lambda>c. c \<noteq> CHR '';'') s)) else None)"

definition seq :: "matcher \<Rightarrow> matcher \<Rightarrow> matcher" where
  \<comment> \<open>one pattern, then the other\<close>
  "seq f g s = (case f s of None \<Rightarrow> None | Some r \<Rightarrow> g r)"

definition match_comment_on :: matcher where
  \<comment> \<open>\<^verbatim>\<open>COMMENT ON .*?;\<close>\<close>
  "match_comment_on = seq (lit ''COMMENT ON '') until_semicolon"

definition match_decimal :: matcher where
  \<comment> \<open>\<^verbatim>\<open>DECIMAL\(\d+,\d+\)\<close>\<close>
  "match_decimal = seq (lit ''DECIMAL('') (seq digits1 (seq (lit '','') (seq digits1 (lit '')''))))"

definition match_varchar :: matcher where
  \<comment> \<open>\<^verbatim>\<open>VARCHAR\(\d+\)\<close>\<close>
  "match_varchar = seq (lit ''VARCHAR('') (seq digits1 (lit '')''))"

function re_sub :: "matcher \<Rightarrow> string \<Rightarrow> string \<Rightarrow> string" where
  \<comment> \<open>\<^verbatim>\<open>re.sub(pattern, repl, text)\<close>: scan from the left; at a match write \<open>repl\<close> and go on
      after the match, otherwise keep the character and go on with the next one\<close>
  "re_sub m repl [] = []"
| "re_sub m repl (c # cs) =
     (case m (c # cs) of
        None \<Rightarrow> c # re_sub m repl cs
      | Some rest \<Rightarrow>
          if length rest \<le> length cs then repl @ re_sub m repl rest
          else c # re_sub m repl cs)"
  by pat_completeness auto
termination
  by (relation "measure (\<lambda>(m, repl, s). length s)") auto

definition strip_comment_on :: "string \<Rightarrow> string" where
  "strip_comment_on s = re_sub match_comment_on [] s"

definition decimal_to_real :: "string \<Rightarrow> string" where
  "decimal_to_real s = re_sub match_decimal ''REAL'' s"

definition varchar_to_text :: "string \<Rightarrow> string" where
  "varchar_to_text s = re_sub match_varchar ''TEXT'' s"

definition bigint_to_integer :: "string \<Rightarrow> string" where
  "bigint_to_integer s = re_sub (lit ''BIGINT'') ''INTEGER'' s"

definition boolean_to_integer :: "string \<Rightarrow> string" where
  "boolean_to_integer s = re_sub (lit ''BOOLEAN'') ''INTEGER'' s"

definition newline :: char where
  "newline = CHR 0x0A"

definition kept_line :: "string \<Rightarrow> bool" where
  \<comment> \<open>\<^verbatim>\<open>line and not line.startswith('--')\<close>\<close>
  "kept_line line = (line \<noteq> [] \<and> \<not> prefix ''--'' line)"

definition clean_lines :: "string \<Rightarrow> string" where
  \<comment> \<open>the last three statements: strip every line, drop the blank and the comment lines\<close>
  "clean_lines s = join_with [newline] (filter kept_line (map py_strip (split_on newline s)))"

definition convert_postgres_to_sqlite :: "string \<Rightarrow> string" where
  "convert_postgres_to_sqlite sql_content =
     clean_lines (boolean_to_integer (bigint_to_integer (varchar_to_text
       (decimal_to_real (strip_comment_on sql_content)))))"

section \<open>Batch execution (\<^verbatim>\<open>src/db/setup_database.py\<close>)\<close>

text \<open>
  The SQLite engine is a parameter: a call either succeeds, raises \<^verbatim>\<open>sqlite3.Error\<close>, or
  raises something else; in the first two cases it leaves a database behind.  A session
  holds the database, the log written so far and the statements passed to
  \<^verbatim>\<open>cursor.execute\<close>, in order.
\<close>

datatype 'db outcome = Done 'db | SqliteError 'db string | Raised string

datatype level = INFO | WARNING | ERROR

record 'db session =
  db :: 'db
  logged :: "(level \<times> string) list"
  calls :: "string list"

record 'db engine =
  execute :: "'db \<Rightarrow> string \<Rightarrow> 'db outcome"
  executescript :: "'db \<Rightarrow> string \<Rightarrow> 'db outcome"

definition log_line :: "level \<Rightarrow> string \<Rightarrow> 'db session \<Rightarrow> 'db session" where
  "log_line lv msg st = st\<lparr>logged := logged st @ [(lv, msg)]\<rparr>"

definition log_failure :: "string \<Rightarrow> string \<Rightarrow> string \<Rightarrow> nat \<Rightarrow> 'db session \<Rightarrow> 'db session" where
  \<comment> \<open>the logging of the \<^verbatim>\<open>except sqlite3.Error\<close> branch, \<open>failed\<close> already counting this failure\<close>
  "log_failure file_path statement e failed st =
     (if failed \<le> 10 then
        log_line WARNING (''Statement preview: '' @ take 100 statement @ ''...'')
          (log_line WARNING (''Warning executing statement in '' @ file_path @ '': '' @ e) st)
      else if failed = 11 then
        log_line WARNING (''Suppressing further error messages for '' @ file_path @ ''...'') st
      else st)"

fun execute_statements ::
  "('db \<Rightarrow> string \<Rightarrow> 'db outcome) \<Rightarrow> string \<Rightarrow> string list \<Rightarrow> 'db session \<times> nat \<times> nat
     \<Rightarrow> string \<times> 'db session + 'db session \<times> nat \<times> nat" where
  \<comment> \<open>the \<^verbatim>\<open>for statement in statements\<close> loop with its two counters; \<open>Inl\<close> is an exception
      that is not a \<^verbatim>\<open>sqlite3.Error\<close> and leaves the loop\<close>
  "execute_statements exec file_path [] (st, successful, failed) = Inr (st, successful, failed)"
| "execute_statements exec file_path (chunk # chunks) (st, successful, failed) =
     (let statement = py_strip chunk in
      if statement \<noteq> [] \<and> \<not> prefix ''--'' statement then
        (case exec (db st) statement of
           Done db' \<Rightarrow>
             execute_statements exec file_path chunks
               (st\<lparr>db := db', calls := calls st @ [statement]\<rparr>, successful + 1, failed)
         | SqliteError db' e \<Rightarrow>
             execute_statements exec file_path chunks
               (log_failure file_path statement e (failed + 1)
                  (st\<lparr>db := db', calls := calls st @ [statement]\<rparr>), successful, failed + 1)
         | Raised e \<Rightarrow> Inl (e, st\<lparr>calls := calls st @ [statement]\<rparr>))
      else execute_statements exec file_path chunks (st, successful, failed))"

definition statement_by_statement ::
  "('db \<Rightarrow> string \<Rightarrow> 'db outcome) \<Rightarrow> string \<Rightarrow> string \<Rightarrow> 'db session \<Rightarrow> string \<times> 'db session + 'db session" where
  \<comment> \<open>from \<^verbatim>\<open>statements = sql_content.split(';')\<close> to the end of the \<^verbatim>\<open>try\<close>\<close>
  "statement_by_statement exec file_path sql_content st =
     (case execute_statements exec file_path (split_on (CHR '';'') sql_content) (st, 0, 0) of
        Inl (e, st') \<Rightarrow> Inl (e, log_line ERROR (''Error executing '' @ file_path @ '': '' @ e) st')
      | Inr (st', successful, failed) \<Rightarrow>
          Inr (let st1 = log_line INFO (''Successfully executed: '' @ file_path) st';
                   st2 = log_line INFO (''  - Successful statements: '' @ str_nat successful) st1
               in if 0 < failed then log_line WARNING (''  - Failed statements: '' @ str_nat failed) st2
                  else st2))"

definition execute_sql_file ::
  "'db engine \<Rightarrow> (string \<Rightarrow> string + string) \<Rightarrow> string \<Rightarrow> 'db session \<Rightarrow> string \<times> 'db session + 'db session" where
  \<comment> \<open>\<open>read_file\<close> opens and reads the file, \<open>Inl\<close> when that raises; the result is \<open>Inl\<close>
      when the function re-raises\<close>
  "execute_sql_file eng read_file file_path st0 =
     (let st = log_line INFO (''Executing SQL file: '' @ file_path) st0 in
      case read_file file_path of
        Inl e \<Rightarrow> Inl (e, log_line ERROR (''Error executing '' @ file_path @ '': '' @ e) st)
      | Inr content \<Rightarrow>
          (let sql_content = convert_postgres_to_sqlite content in
           if suffix ''_insert.sql'' file_path then
             (case executescript eng (db st) sql_content of
                Done db' \<Rightarrow> Inr (log_line INFO (''Successfully executed: '' @ file_path) (st\<lparr>db := db'\<rparr>))
              | SqliteError db' e \<Rightarrow>
                  statement_by_statement (execute eng) file_path sql_content
                    (log_line INFO ''Falling back to statement-by-statement execution...''
                       (log_line WARNING (''executescript failed for '' @ file_path @ '': '' @ e)
                          (st\<lparr>db := db'\<rparr>)))
              | Raised e \<Rightarrow> Inl (e, log_line ERROR (''Error executing '' @ file_path @ '': '' @ e) st))
           else statement_by_statement (execute eng) file_path sql_content st))"




subsection \<open>Reference notions for the properties\<close>


definition kept_statements :: "string \<Rightarrow> string list" where
  \<comment> \<open>the non-empty statements that do not start with two dashes\<close>
  "kept_statements sql_content = filter kept_line (map py_strip (split_on (CHR '';'') sql_content))"



fun run_each :: "('db \<Rightarrow> string \<Rightarrow> 'db outcome) \<Rightarrow> string list \<Rightarrow> 'db \<Rightarrow> 'db" where
  \<comment> \<open>the database left when the statements are executed one after the other, going on
      after an \<^verbatim>\<open>sqlite3.Error\<close>\<close>
  "run_each exec [] d = d"
| "run_each exec (s # ss) d =
     (case exec d s of
        Done d' \<Rightarrow> run_each exec ss d'
      | SqliteError d' e \<Rightarrow> run_each exec ss d'
      | Raised e \<Rightarrow> d)"

definition is_detail :: "level \<times> string \<Rightarrow> bool" where
  \<comment> \<open>a detailed failure message\<close>
  "is_detail l = prefix ''Warning executing statement in '' (snd l)"

definition is_preview :: "level \<times> string \<Rightarrow> bool" where
  "is_preview l = prefix ''Statement preview: '' (snd l)"

definition is_suppression :: "level \<times> string \<Rightarrow> bool" where
  "is_suppression l = prefix ''Suppressing further error messages for '' (snd l)"

subsection \<open>An engine for examples\<close>

definition recording_execute :: "string list \<Rightarrow> string \<Rightarrow> string list outcome" where
  \<comment> \<open>the database is the list of the statements executed so far; the statement \<^verbatim>\<open>BAD\<close> is
      rejected with an \<^verbatim>\<open>sqlite3.Error\<close>\<close>
  "recording_execute d s = (if s = ''BAD'' then SqliteError d ''syntax error'' else Done (d @ [s]))"

definition failing_script_engine :: "string list engine" where
  \<comment> \<open>\<^verbatim>\<open>executescript\<close> fails on every script, \<^verbatim>\<open>execute\<close> records\<close>
  "failing_script_engine =
     \<lparr>execute = recording_execute, executescript = (\<lambda>d s. SqliteError d ''script error'')\<rparr>"

definition empty_session :: "string list session" where
  "empty_session = \<lparr>db = [], logged = [], calls = []\<rparr>"



section \<open>Query catalogue (\<^verbatim>\<open>src/db/query_examples.py\<close>)\<close>

text \<open>
  The database is a parameter: the rows, in order, that a \<^verbatim>\<open>SELECT\<close> statement of the
  catalogue yields before its \<^verbatim>\<open>LIMIT\<close> clause applies, under the values bound to it.
  \<^verbatim>\<open>LIMIT n\<close> keeps the first \<open>n\<close> rows; SQLite takes a negative \<open>n\<close> for no limit.  An
  optional Python argument is an \<open>option\<close>: \<open>None\<close> when the caller leaves it out.
\<close>

datatype select = ModelsByYear | LargestModels | ModelsByOrganization | FrontierModels
  | ModelsInDomain | DomainDistribution | TrainingCost | RecentModels | SearchModels

datatype sql_value = SqlInt int | SqlText string

type_synonym 'row database = "select \<Rightarrow> sql_value list \<Rightarrow> 'row list"

definition sql_limit :: "int \<Rightarrow> 'row list \<Rightarrow> 'row list" where
  "sql_limit n rows = (if n < 0 then rows else take (nat n) rows)"

definition arg_or :: "'a \<Rightarrow> 'a option \<Rightarrow> 'a" where
  \<comment> \<open>an argument with a default value\<close>
  "arg_or d a = (case a of None \<Rightarrow> d | Some x \<Rightarrow> x)"

definition get_models_by_year :: "'row database \<Rightarrow> int option \<Rightarrow> 'row list" where
  "get_models_by_year dbase limit = sql_limit (arg_or 10 limit) (dbase ModelsByYear [])"

definition get_largest_models :: "'row database \<Rightarrow> int option \<Rightarrow> 'row list" where
  "get_largest_models dbase limit = sql_limit (arg_or 10 limit) (dbase LargestModels [])"

definition get_models_by_organization :: "'row database \<Rightarrow> int option \<Rightarrow> 'row list" where
  "get_models_by_organization dbase limit = sql_limit (arg_or 10 limit) (dbase ModelsByOrganization [])"

definition get_frontier_models :: "'row database \<Rightarrow> int option \<Rightarrow> 'row list" where
  "get_frontier_models dbase limit = sql_limit (arg_or 20 limit) (dbase FrontierModels [])"

definition get_models_by_domain :: "'row database \<Rightarrow> string option \<Rightarrow> 'row list" where
  \<comment> \<open>\<^verbatim>\<open>if domain:\<close> holds for a non-empty string; the filtered query has no \<^verbatim>\<open>LIMIT\<close>\<close>
  "get_models_by_domain dbase domain =
     (case domain of
        None \<Rightarrow> sql_limit 15 (dbase DomainDistribution [])
      | Some d \<Rightarrow>
          if d = [] then sql_limit 15 (dbase DomainDistribution [])
          else dbase ModelsInDomain [SqlText (''%'' @ d @ ''%'')])"

definition get_training_cost_analysis :: "'row database \<Rightarrow> 'row list" where
  "get_training_cost_analysis dbase = sql_limit 20 (dbase TrainingCost [])"

definition get_recent_models :: "'row database \<Rightarrow> int option \<Rightarrow> 'row list" where
  \<comment> \<open>the argument is the number of days; the query has no \<^verbatim>\<open>LIMIT\<close>\<close>
  "get_recent_models dbase days = dbase RecentModels [SqlInt (arg_or 365 days)]"

definition search_models :: "'row database \<Rightarrow> string \<Rightarrow> 'row list" where
  "search_models dbase search_term =
     (let search_pattern = ''%'' @ search_term @ ''%'' in
      sql_limit 50 (dbase SearchModels [SqlText search_pattern, SqlText search_pattern, SqlText search_pattern]))"

section \<open>Properties of the value coercion\<close>

lemma char_of_bits:
  "char_of (n::nat) = Char (odd n) (odd (n div 2)) (odd (n div 4)) (odd (n div 8))
     (odd (n div 16)) (odd (n div 32)) (odd (n div 64)) (odd (n div 128))"
  by (simp add: char_of_def bit_iff_odd)

lemmas string_eval = py_strip_def py_isspace_def py_lower_def py_lower_char_def char_of_bits
  pd_isna_def is_empty_str_def py_str_def quote_def

lemmas float_parse_eval = py_float_def float_of_string_def float_ascii_def is_c_space_def is_digit_def
  parse_float_literal_def take_sign_def parse_inf_or_nan_def match_nocase_def parse_exponent_def
  digit_val_def float_of_fraction_def scaled_def round_binary64_def ilog_def compute_floorlog
  round_half_even_def Let_def

lemmas date_eval = strptime_ymd_def regex_ymd_def match_year_def month_alternatives_def
  day_alternatives_def dash_then_day_def digit_in_def is_digit_def digit_val_def days_in_month_def
  is_leap_def Let_def

lemma float_3_7: "float_of_string ''3.7'' = Inr (Finite False 8331659310635418 (- 51))"
  by (simp add: float_parse_eval)

lemma float_37e_1: "float_of_string ''37e-1'' = Inr (Finite False 8331659310635418 (- 51))"
  by (simp add: float_parse_eval)

lemma float_42_0: "float_of_string ''42.0'' = Inr (Finite False 5910974510923776 (- 47))"
  by (simp add: float_parse_eval)

lemma round_3_7: "round_binary64 8331659310635418 (2 ^ 51) = Some (8331659310635418, - 51)"
  by (simp add: round_binary64_def ilog_def compute_floorlog round_half_even_def Let_def)

lemma round_37_10: "round_binary64 37 10 = Some (8331659310635418, - 51)"
  by (simp add: round_binary64_def ilog_def compute_floorlog round_half_even_def Let_def)

lemma round_3_1: "round_binary64 3 (Suc 0) = Some (6755399441055744, - 51)"
  by (simp add: round_binary64_def ilog_def compute_floorlog round_half_even_def Let_def)

lemma round_4_1: "round_binary64 4 (Suc 0) = Some (4503599627370496, - 50)"
  by (simp add: round_binary64_def ilog_def compute_floorlog round_half_even_def Let_def)

lemma round_38_10: "round_binary64 38 10 = Some (8556839292003942, - 51)"
  by (simp add: round_binary64_def ilog_def compute_floorlog round_half_even_def Let_def)

lemma ilog10_3_7: "ilog 10 8331659310635418 (2 ^ 51) = 0"
  by (simp add: ilog_def compute_floorlog Let_def)

lemma shortest_3_7:
  "shortest_from 1 (8331659310635418, 2 ^ 51) (8331659310635418, - 51) 0 = (37, - 1)"
  by (simp add: shortest_from.simps [of "Suc 0"] shortest_from.simps [of "Suc (Suc 0)"] roundtrips_def scaled_def
      round_3_1 round_4_1 round_37_10 round_38_10 Let_def)

lemma repr_3_7: "float_repr (Finite False 8331659310635418 (- 51)) = ''3.7''"
  using round_3_7 ilog10_3_7 shortest_3_7
  by (simp add: float_repr_def scaled_def strip_zeros.simps format_repr_def str_nat.simps digit_char_def)

lemma dropWhile_all_iff: "(\<forall>x\<in>set (dropWhile P s). P x) \<longleftrightarrow> (\<forall>x\<in>set s. P x)"
proof
  assume a: "\<forall>x\<in>set (dropWhile P s). P x"
  have "dropWhile P s = []"
  proof (rule ccontr)
    assume ne: "dropWhile P s \<noteq> []"
    then have "\<not> P (hd (dropWhile P s))" by (rule hd_dropWhile)
    moreover have "hd (dropWhile P s) \<in> set (dropWhile P s)" using ne by simp
    ultimately show False using a by blast
  qed
  then show "\<forall>x\<in>set s. P x" by (simp add: dropWhile_eq_Nil_conv)
next
  assume "\<forall>x\<in>set s. P x"
  then show "\<forall>x\<in>set (dropWhile P s). P x" by (meson set_dropWhileD)
qed

lemma py_strip_empty_iff: "py_strip s = [] \<longleftrightarrow> list_all py_isspace s"
  by (simp add: py_strip_def dropWhile_eq_Nil_conv list_all_iff dropWhile_all_iff)

lemma collapse_quotes_other: "c \<noteq> quote \<Longrightarrow> collapse_quotes (c # xs) = c # collapse_quotes xs"
  by (cases xs) auto

lemma collapse_quotes_replace: "collapse_quotes (py_replace_char quote [quote, quote] s) = s"
  by (induction s) (auto simp: py_replace_char_def collapse_quotes_other)

lemma quote_runs_after_run:
  "list_all even (quote_runs ys) \<Longrightarrow>
     even (length (takeWhile (\<lambda>d. d = quote) ys)) \<and> list_all even (quote_runs (dropWhile (\<lambda>d. d = quote) ys))"
  by (cases ys) auto

lemma quote_runs_replace: "list_all even (quote_runs (py_replace_char quote [quote, quote] s))"
proof (induction s)
  case Nil
  then show ?case by (simp add: py_replace_char_def)
next
  case (Cons c cs)
  show ?case
  proof (cases "c = quote")
    case True
    then show ?thesis using quote_runs_after_run [OF Cons.IH] by (simp add: py_replace_char_def)
  next
    case False
    then show ?thesis using Cons.IH by (simp add: py_replace_char_def)
  qed
qed

lemma escape_sql_string_Text:
  "\<not> list_all py_isspace s \<Longrightarrow>
     escape_sql_string (Text s) = quote # py_replace_char quote [quote, quote] s @ [quote]"
  by (auto simp: escape_sql_string_def pd_isna_def is_empty_str_def py_str_def py_strip_empty_iff)

text \<open>
  C7 as stated fails: a string of one blank is a non-empty string value, its literal is the
  NULL keyword, and NULL does not decode to the blank.
\<close>

theorem string_roundtrip_fails_on_blank:
  "'' '' \<noteq> [] \<and> escape_sql_string (Text '' '') = ''NULL''
     \<and> decode_literal (escape_sql_string (Text '' '')) \<noteq> Some '' ''"
  by (simp add: escape_sql_string_def decode_literal_def string_eval)

text \<open>
  C7, amended: for every string value that is not made of white space only (so also not
  empty), stripping the outer quotes of the emitted literal and collapsing each doubled
  quote gives the original string back.
\<close>

theorem string_roundtrip:
  assumes "\<not> list_all py_isspace s"
  shows "decode_literal (escape_sql_string (Text s)) = Some s"
  using assms by (simp add: escape_sql_string_Text decode_literal_def collapse_quotes_replace)

theorem string_roundtrip_witness:
  "\<not> list_all py_isspace (''O'' @ [quote] @ ''Brien'')
     \<and> escape_sql_string (Text (''O'' @ [quote] @ ''Brien'')) = [quote] @ ''O'' @ [quote, quote] @ ''Brien'' @ [quote]
     \<and> decode_literal (escape_sql_string (Text (''O'' @ [quote] @ ''Brien''))) = Some (''O'' @ [quote] @ ''Brien'')"
proof -
  have h: "\<not> list_all py_isspace (''O'' @ [quote] @ ''Brien'')"
    by (simp add: py_isspace_def)
  have "escape_sql_string (Text (''O'' @ [quote] @ ''Brien'')) = [quote] @ ''O'' @ [quote, quote] @ ''Brien'' @ [quote]"
    using escape_sql_string_Text [OF h] by (simp add: py_replace_char_def quote_def)
  with h string_roundtrip [OF h] show ?thesis by simp
qed

text \<open>
  C8: for a cell that is missing (\<^verbatim>\<open>None\<close> or NaN), the empty string or a string of white
  space only, each of the coercion functions (string, numeric in both modes, date,
  boolean) returns the NULL keyword.
\<close>

theorem blank_cell_is_NULL:
  assumes "pd_isna v \<or> (\<exists>s. v = Text s \<and> list_all py_isspace s)"
  shows "escape_sql_string v = ''NULL'' \<and> convert_to_sql_number v False = Inr ''NULL''
     \<and> convert_to_sql_number v True = Inr ''NULL'' \<and> convert_to_sql_date v = Inr ''NULL''
     \<and> convert_to_sql_boolean v = ''NULL''"
proof -
  have "pd_isna v \<or> is_empty_str v \<or> py_strip (py_str v) = []"
    using assms by (auto simp: py_str_def py_strip_empty_iff)
  then show ?thesis
    by (simp add: escape_sql_string_def convert_to_sql_number_def convert_to_sql_date_def
        convert_to_sql_boolean_def)
qed

theorem blank_cell_is_NULL_witness:
  "list_all py_isspace [CHR 0x20, CHR 0x09]
     \<and> escape_sql_string (Text [CHR 0x20, CHR 0x09]) = ''NULL''
     \<and> convert_to_sql_number (Text [CHR 0x20, CHR 0x09]) False = Inr ''NULL''
     \<and> convert_to_sql_number (Text [CHR 0x20, CHR 0x09]) True = Inr ''NULL''
     \<and> convert_to_sql_date (Text [CHR 0x20, CHR 0x09]) = Inr ''NULL''
     \<and> convert_to_sql_boolean (Text [CHR 0x20, CHR 0x09]) = ''NULL''
     \<and> pd_isna (Float NaN) \<and> escape_sql_string (Float NaN) = ''NULL''
     \<and> convert_to_sql_number Missing False = Inr ''NULL''
     \<and> convert_to_sql_date (Text []) = Inr ''NULL''"
proof -
  have h: "list_all py_isspace [CHR 0x20, CHR 0x09]"
    by (simp add: py_isspace_def)
  have n: "pd_isna (Float NaN)" "pd_isna Missing" "list_all py_isspace []"
    by (simp_all add: pd_isna_def)
  show ?thesis
    using h n blank_cell_is_NULL [of "Text [CHR 0x20, CHR 0x09]"] blank_cell_is_NULL [of "Float NaN"]
      blank_cell_is_NULL [of Missing] blank_cell_is_NULL [of "Text []"]
    by simp
qed

lemma scan_body_other:
  "c \<noteq> quote \<Longrightarrow> xs \<noteq> [] \<Longrightarrow> scan_body (c # xs) = map_option Suc (scan_body xs)"
  by (cases xs) auto

lemma scan_body_replace:
  "scan_body (py_replace_char quote [quote, quote] s @ [quote])
     = Some (Suc (length (py_replace_char quote [quote, quote] s)))"
  by (induction s) (auto simp: py_replace_char_def scan_body_other)

text \<open>
  C9: the output of string coercion is the NULL keyword, or a literal that begins and ends
  with a quote character and whose interior has only runs of quote characters of even
  length; a scanner that reads the literal from its opening quote, taking a doubled quote
  for an escaped one, stops exactly at the final character.
\<close>

theorem escape_sql_string_well_quoted:
  "escape_sql_string v = ''NULL''
     \<or> (\<exists>body. escape_sql_string v = quote # body @ [quote] \<and> list_all even (quote_runs body)
           \<and> literal_length (escape_sql_string v) = Some (length (escape_sql_string v)))"
  by (auto simp: escape_sql_string_def quote_runs_replace literal_length_def scan_body_replace)

text \<open>
  C1 (defect of the code): in integer mode a value without scientific-notation markers is
  always truncated.  The text 3.7 (or the float 3.7) carries no marker and becomes 3,
  where the claim keeps the decimal representation; the scientific-notation branch of the
  same function does keep it (37e-1 becomes 3.7).  On a value that is an integer the two
  agree (42.0 becomes 42).
\<close>

theorem integer_mode_truncates_fraction:
  "\<not> py_contains ''e+'' (py_lower ''3.7'') \<and> \<not> py_contains ''e-'' (py_lower ''3.7'')
     \<and> convert_to_sql_number (Text ''3.7'') False = Inr ''3''
     \<and> convert_to_sql_number (Float (Finite False 8331659310635418 (- 51))) False = Inr ''3''
     \<and> convert_to_sql_number (Text ''37e-1'') False = Inr ''3.7''
     \<and> convert_to_sql_number (Text ''42.0'') False = Inr ''42''"
  by (simp add: convert_to_sql_number_def number_try_block_def string_eval py_float_def
      float_3_7 float_37e_1 float_42_0 repr_3_7 int_of_float_def is_integer_def str_int_def
      str_nat.simps digit_char_def)

text \<open>
  C2 (defect of the code): numeric coercion is not total.  In integer mode the text inf
  (and the float infinity pandas reads from it) parses, \<^verbatim>\<open>int\<close> of the infinite float
  raises \<^verbatim>\<open>OverflowError\<close>, and the handler catches \<^verbatim>\<open>ValueError\<close> and \<^verbatim>\<open>TypeError\<close> only.
  A text that does not parse, such as abc, does yield NULL.
\<close>

theorem number_coercion_raises_on_infinity:
  "convert_to_sql_number (Text ''inf'') False = Inl OverflowError
     \<and> convert_to_sql_number (Float (Infinity False)) False = Inl OverflowError
     \<and> convert_to_sql_number (Text ''abc'') False = Inr ''NULL''
     \<and> convert_to_sql_number (Text ''abc'') True = Inr ''NULL''"
  by (simp add: convert_to_sql_number_def number_try_block_def string_eval float_parse_eval
      float_repr_def int_of_float_def)

text \<open>
  C5 (defect of the code): date coercion accepts a month and a day without the leading
  zero, so 2023-1-5, which is not of the form YYYY-MM-DD, is emitted as a quoted literal.
  The three examples of the specification come out as it says.
\<close>

theorem date_coercion_accepts_unpadded:
  "convert_to_sql_date (Text ''2023-1-5'') = Inr ([quote] @ ''2023-1-5'' @ [quote])
     \<and> convert_to_sql_date (Text ''2023-01-15'') = Inr ([quote] @ ''2023-01-15'' @ [quote])
     \<and> convert_to_sql_date (Text ''2023-13-01'') = Inr ''NULL''
     \<and> convert_to_sql_date (Text ''01/15/2023'') = Inr ''NULL''"
  by (simp add: convert_to_sql_date_def string_eval date_eval)

section \<open>Properties of the dialect translation\<close>

lemma prefix_before_char:
  assumes "c0 \<notin> set w \<or> (xs \<noteq> [] \<and> c0 \<notin> set (tl w))"
  shows "prefix w (xs @ c0 # ys) \<longleftrightarrow> prefix w xs"
proof
  assume "prefix w (xs @ c0 # ys)"
  then have "prefix w xs \<or> (\<exists>us. w = xs @ us \<and> prefix us (c0 # ys))"
    by (simp add: prefix_append)
  then show "prefix w xs"
  proof
    assume "prefix w xs"
    then show ?thesis .
  next
    assume "\<exists>us. w = xs @ us \<and> prefix us (c0 # ys)"
    then obtain us where w: "w = xs @ us" and p: "prefix us (c0 # ys)" by blast
    show ?thesis
    proof (cases us)
      case Nil
      then show ?thesis using w by simp
    next
      case (Cons u us')
      then have w': "w = xs @ c0 # us'" using w p by simp
      then have "c0 \<in> set w" by simp
      moreover have "xs \<noteq> [] \<Longrightarrow> c0 \<in> set (tl w)" using w' by (cases xs) auto
      ultimately show ?thesis using assms by blast
    qed
  qed
next
  assume "prefix w xs"
  then show "prefix w (xs @ c0 # ys)" by (simp add: prefix_prefix)
qed

lemma lit_before_char:
  assumes "c0 \<notin> set w \<or> (xs \<noteq> [] \<and> c0 \<notin> set (tl w))"
  shows "lit w (xs @ c0 # ys) = map_option (\<lambda>r. r @ c0 # ys) (lit w xs)"
  using prefix_before_char [OF assms, of ys] by (auto simp: lit_def prefix_def)

lemma digits1_before_char:
  assumes "\<not> is_digit c0"
  shows "digits1 (xs @ c0 # ys) = map_option (\<lambda>r. r @ c0 # ys) (digits1 xs)"
proof (cases "\<forall>x\<in>set xs. is_digit x")
  case True
  then show ?thesis using assms by (cases xs) (auto simp: digits1_def takeWhile_tail dropWhile_append)
next
  case False
  then obtain x where "x \<in> set xs" "\<not> is_digit x" by blast
  then show ?thesis using assms by (auto simp: digits1_def takeWhile_tail dropWhile_append1)
qed

lemma seq_before_char:
  assumes "f (xs @ c0 # ys) = map_option (\<lambda>r. r @ c0 # ys) (f xs)"
    and "\<And>r. g (r @ c0 # ys) = map_option (\<lambda>r. r @ c0 # ys) (g r)"
  shows "seq f g (xs @ c0 # ys) = map_option (\<lambda>r. r @ c0 # ys) (seq f g xs)"
  using assms by (auto simp: seq_def split: option.splits)

lemma re_sub_occurrence:
  assumes loc: "\<And>xs. xs \<noteq> [] \<Longrightarrow> m (xs @ c0 # tl_occ @ post) = map_option (\<lambda>r. r @ c0 # tl_occ @ post) (m xs)"
    and occ: "m (c0 # tl_occ @ post) = Some post"
  shows "re_sub m repl (pre @ c0 # tl_occ @ post) = re_sub m repl pre @ repl @ re_sub m repl post"
proof (induction pre rule: length_induct)
  case (1 pre)
  show ?case
  proof (cases pre)
    case Nil
    then show ?thesis using occ by simp
  next
    case (Cons c cs)
    have m: "m ((c # cs) @ c0 # tl_occ @ post) = map_option (\<lambda>r. r @ c0 # tl_occ @ post) (m (c # cs))"
      by (rule loc) simp
    show ?thesis
    proof (cases "m (c # cs)")
      case None
      then show ?thesis using m Cons "1.IH" by simp
    next
      case (Some r)
      show ?thesis
      proof (cases "length r \<le> length cs")
        case True
        then have "re_sub m repl (r @ c0 # tl_occ @ post) = re_sub m repl r @ repl @ re_sub m repl post"
          using "1.IH" Cons by simp
        then show ?thesis using m Some True Cons by simp
      next
        case False
        then show ?thesis using m Some Cons "1.IH" by simp
      qed
    qed
  qed
qed

lemma digits1_run:
  "n \<noteq> [] \<Longrightarrow> list_all is_digit n \<Longrightarrow> \<not> is_digit c \<Longrightarrow> digits1 (n @ c # r) = Some (c # r)"
  by (cases n) (auto simp: digits1_def list_all_iff takeWhile_tail dropWhile_append)

lemma not_digit_punct [simp]: "\<not> is_digit CHR '')''" "\<not> is_digit CHR '',''" "\<not> is_digit CHR ''V''"
  "\<not> is_digit CHR ''D''" "\<not> is_digit CHR ''B''"
  by (simp_all add: is_digit_def)

lemma varchar_occurrence:
  assumes "n \<noteq> []" "list_all is_digit n"
  shows "varchar_to_text (pre @ ''VARCHAR('' @ n @ '')'' @ post)
     = varchar_to_text pre @ ''TEXT'' @ varchar_to_text post"
proof -
  have occ: "match_varchar (CHR ''V'' # (''ARCHAR('' @ n @ '')'') @ post) = Some post"
    using assms by (simp add: match_varchar_def seq_def lit_def digits1_run)
  have loc: "match_varchar (xs @ CHR ''V'' # ys) = map_option (\<lambda>r. r @ CHR ''V'' # ys) (match_varchar xs)"
    if "xs \<noteq> []" for xs ys
    unfolding match_varchar_def
    by (intro seq_before_char lit_before_char digits1_before_char) (use that in simp_all)
  show ?thesis
    unfolding varchar_to_text_def
    using re_sub_occurrence [of match_varchar "CHR ''V''" "''ARCHAR('' @ n @ '')''" post "''TEXT''" pre, OF loc occ]
    by simp
qed

lemma decimal_occurrence:
  assumes "p \<noteq> []" "list_all is_digit p" "q \<noteq> []" "list_all is_digit q"
  shows "decimal_to_real (pre @ ''DECIMAL('' @ p @ '','' @ q @ '')'' @ post)
     = decimal_to_real pre @ ''REAL'' @ decimal_to_real post"
proof -
  have occ: "match_decimal (CHR ''D'' # (''ECIMAL('' @ p @ '','' @ q @ '')'') @ post) = Some post"
    using assms by (simp add: match_decimal_def seq_def lit_def digits1_run)
  have loc: "match_decimal (xs @ CHR ''D'' # ys) = map_option (\<lambda>r. r @ CHR ''D'' # ys) (match_decimal xs)"
    if "xs \<noteq> []" for xs ys
    unfolding match_decimal_def
    by (intro seq_before_char lit_before_char digits1_before_char) (use that in simp_all)
  show ?thesis
    unfolding decimal_to_real_def
    using re_sub_occurrence [of match_decimal "CHR ''D''" "''ECIMAL('' @ p @ '','' @ q @ '')''" post
        "''REAL''" pre, OF loc occ]
    by simp
qed

lemma bigint_occurrence:
  "bigint_to_integer (pre @ ''BIGINT'' @ post)
     = bigint_to_integer pre @ ''INTEGER'' @ bigint_to_integer post"
proof -
  have occ: "lit ''BIGINT'' (CHR ''B'' # ''IGINT'' @ post) = Some post"
    by (simp add: lit_def)
  have loc: "lit ''BIGINT'' (xs @ CHR ''B'' # ys) = map_option (\<lambda>r. r @ CHR ''B'' # ys) (lit ''BIGINT'' xs)"
    if "xs \<noteq> []" for xs ys
    by (rule lit_before_char) (use that in simp)
  show ?thesis
    unfolding bigint_to_integer_def
    using re_sub_occurrence [of "lit ''BIGINT''" "CHR ''B''" "''IGINT''" post "''INTEGER''" pre, OF loc occ]
    by simp
qed

lemma boolean_occurrence:
  "boolean_to_integer (pre @ ''BOOLEAN'' @ post)
     = boolean_to_integer pre @ ''INTEGER'' @ boolean_to_integer post"
proof -
  have occ: "lit ''BOOLEAN'' (CHR ''B'' # ''OOLEAN'' @ post) = Some post"
    by (simp add: lit_def)
  have loc: "lit ''BOOLEAN'' (xs @ CHR ''B'' # ys) = map_option (\<lambda>r. r @ CHR ''B'' # ys) (lit ''BOOLEAN'' xs)"
    if "xs \<noteq> []" for xs ys
    by (rule lit_before_char) (use that in simp)
  show ?thesis
    unfolding boolean_to_integer_def
    using re_sub_occurrence [of "lit ''BOOLEAN''" "CHR ''B''" "''OOLEAN''" post "''INTEGER''" pre, OF loc occ]
    by simp
qed

lemma until_semicolon_first:
  "CHR '';'' \<notin> set body \<Longrightarrow> until_semicolon (body @ CHR '';'' # post) = Some post"
  by (simp add: until_semicolon_def dropWhile_append)

lemma comment_on_clause:
  assumes "\<not> py_contains ''COMMENT ON '' pre" "CHR '';'' \<notin> set body"
  shows "strip_comment_on (pre @ ''COMMENT ON '' @ body @ '';'' @ post) = pre @ strip_comment_on post"
  using assms(1)
proof (induction pre)
  case Nil
  have "match_comment_on (''COMMENT ON '' @ body @ CHR '';'' # post) = Some post"
    using assms(2) by (simp add: match_comment_on_def seq_def lit_def until_semicolon_first)
  then show ?case by (simp add: strip_comment_on_def)
next
  case (Cons c cs)
  then have np: "\<not> prefix ''COMMENT ON '' (c # cs)" and nc: "\<not> py_contains ''COMMENT ON '' cs"
    by simp_all
  have a: "lit ''COMMENT ON '' (c # cs) = None"
    using np by (simp add: lit_def)
  have b: "lit ''COMMENT ON '' ((c # cs) @ CHR ''C'' # rest) = None" for rest
    using lit_before_char [of "CHR ''C''" "''COMMENT ON ''" "c # cs" rest] a by simp
  have "match_comment_on (c # cs @ ''COMMENT ON '' @ body @ '';'' @ post) = None"
    using b [of "''OMMENT ON '' @ body @ '';'' @ post"] by (simp add: match_comment_on_def seq_def)
  then show ?case using Cons.IH [OF nc] by (simp add: strip_comment_on_def)
qed

lemma split_on_no_sep: "sep \<notin> set l \<Longrightarrow> split_on sep l = [l]"
  by (induction l) auto

lemma split_on_append_sep: "sep \<notin> set l \<Longrightarrow> split_on sep (l @ sep # rest) = l # split_on sep rest"
  by (induction l) auto

lemma split_on_join:
  "ls \<noteq> [] \<Longrightarrow> list_all (\<lambda>l. sep \<notin> set l) ls \<Longrightarrow> split_on sep (join_with [sep] ls) = ls"
proof (induction ls)
  case Nil
  then show ?case by simp
next
  case (Cons l ls)
  show ?case
  proof (cases ls)
    case Nil
    then show ?thesis using Cons.prems by (simp add: split_on_no_sep)
  next
    case (Cons m ms)
    then show ?thesis using Cons.IH Cons.prems by (simp add: split_on_append_sep)
  qed
qed

lemma split_on_pieces: "l \<in> set (split_on sep s) \<Longrightarrow> sep \<notin> set l"
  by (induction s arbitrary: l) (auto split: if_splits list.splits)

lemma set_py_strip: "set (py_strip s) \<subseteq> set s"
proof -
  have "set (py_strip s) \<subseteq> set (dropWhile py_isspace s)"
    unfolding py_strip_def using set_dropWhileD by fastforce
  also have "\<dots> \<subseteq> set s" using set_dropWhileD by fastforce
  finally show ?thesis .
qed

lemma clean_lines_lines:
  "split_on newline (clean_lines s)
     = (if filter kept_line (map py_strip (split_on newline s)) = [] then [[]]
        else filter kept_line (map py_strip (split_on newline s)))"
proof (cases "filter kept_line (map py_strip (split_on newline s)) = []")
  case True
  then show ?thesis by (simp add: clean_lines_def)
next
  case False
  have "list_all (\<lambda>l. newline \<notin> set l) (filter kept_line (map py_strip (split_on newline s)))"
    using split_on_pieces [of _ newline s] set_py_strip by (fastforce simp: list_all_iff)
  then show ?thesis using False by (simp add: clean_lines_def split_on_join)
qed

lemma clean_lines_kept:
  "clean_lines s = [] \<or> list_all kept_line (split_on newline (clean_lines s))"
proof (cases "filter kept_line (map py_strip (split_on newline s)) = []")
  case True
  then show ?thesis by (simp add: clean_lines_def)
next
  case False
  then show ?thesis by (simp add: clean_lines_lines list_all_iff)
qed

lemmas translator_eval = convert_postgres_to_sqlite_def clean_lines_def strip_comment_on_def
  decimal_to_real_def varchar_to_text_def bigint_to_integer_def boolean_to_integer_def
  match_comment_on_def match_decimal_def match_varchar_def seq_def lit_def digits1_def
  until_semicolon_def is_digit_def kept_line_def newline_def py_strip_def py_isspace_def quote_def

text \<open>
  C6: the translator is the chain of its six steps.  The first step removes a
  \<^verbatim>\<open>COMMENT ON\<close> clause together with everything up to and including the next semicolon
  (stated for the first clause of a text: the step goes on with the text after it); each
  of the four type rules rewrites an occurrence of its pattern wherever it stands in the
  text it is applied to, the text before and after being rewritten on their own; the last
  step keeps exactly the stripped lines that are neither blank nor start with two dashes,
  so no such line is left in the output.
\<close>

theorem translator_rewrites_every_occurrence:
  assumes "n \<noteq> []" "list_all is_digit n" "p \<noteq> []" "list_all is_digit p" "q \<noteq> []" "list_all is_digit q"
    and "\<not> py_contains ''COMMENT ON '' before" "CHR '';'' \<notin> set body"
  shows "convert_postgres_to_sqlite sql
       = clean_lines (boolean_to_integer (bigint_to_integer (varchar_to_text
           (decimal_to_real (strip_comment_on sql)))))
     \<and> strip_comment_on (before @ ''COMMENT ON '' @ body @ '';'' @ rest) = before @ strip_comment_on rest
     \<and> decimal_to_real (pre @ ''DECIMAL('' @ p @ '','' @ q @ '')'' @ post)
         = decimal_to_real pre @ ''REAL'' @ decimal_to_real post
     \<and> varchar_to_text (pre @ ''VARCHAR('' @ n @ '')'' @ post)
         = varchar_to_text pre @ ''TEXT'' @ varchar_to_text post
     \<and> bigint_to_integer (pre @ ''BIGINT'' @ post)
         = bigint_to_integer pre @ ''INTEGER'' @ bigint_to_integer post
     \<and> boolean_to_integer (pre @ ''BOOLEAN'' @ post)
         = boolean_to_integer pre @ ''INTEGER'' @ boolean_to_integer post
     \<and> split_on newline (clean_lines s)
         = (if filter kept_line (map py_strip (split_on newline s)) = [] then [[]]
            else filter kept_line (map py_strip (split_on newline s)))
     \<and> (convert_postgres_to_sqlite sql = []
          \<or> list_all kept_line (split_on newline (convert_postgres_to_sqlite sql)))"
proof -
  have chain: "convert_postgres_to_sqlite sql
       = clean_lines (boolean_to_integer (bigint_to_integer (varchar_to_text
           (decimal_to_real (strip_comment_on sql)))))"
    by (simp add: convert_postgres_to_sqlite_def)
  have kept: "convert_postgres_to_sqlite sql = []
       \<or> list_all kept_line (split_on newline (convert_postgres_to_sqlite sql))"
    unfolding convert_postgres_to_sqlite_def by (rule clean_lines_kept)
  show ?thesis
    by (intro conjI chain kept comment_on_clause decimal_occurrence varchar_occurrence
        bigint_occurrence boolean_occurrence clean_lines_lines assms)
qed

theorem translator_rewrites_every_occurrence_witness:
  "list_all is_digit ''255'' \<and> list_all is_digit ''10'' \<and> list_all is_digit ''2''
     \<and> \<not> py_contains ''COMMENT ON '' ''a '' \<and> CHR '';'' \<notin> set (''COLUMN x IS '' @ [quote] @ ''desc'' @ [quote])
     \<and> strip_comment_on (''a '' @ ''COMMENT ON '' @ (''COLUMN x IS '' @ [quote] @ ''desc'' @ [quote]) @ '';'' @ '' b'')
         = ''a '' @ strip_comment_on '' b''
     \<and> varchar_to_text (''name '' @ ''VARCHAR('' @ ''255'' @ '')'' @ '','')
         = varchar_to_text ''name '' @ ''TEXT'' @ varchar_to_text '',''
     \<and> decimal_to_real (''name '' @ ''DECIMAL('' @ ''10'' @ '','' @ ''2'' @ '')'' @ '','')
         = decimal_to_real ''name '' @ ''REAL'' @ decimal_to_real '',''
     \<and> convert_postgres_to_sqlite ''VARCHAR(255)'' = ''TEXT''
     \<and> convert_postgres_to_sqlite ''DECIMAL(10,2)'' = ''REAL''
     \<and> convert_postgres_to_sqlite (''COMMENT ON COLUMN x IS '' @ [quote] @ ''desc'' @ [quote] @ '';'') = []
     \<and> convert_postgres_to_sqlite ''a BIGINT, b BOOLEAN'' = ''a INTEGER, b INTEGER''"
proof -
  have d: "''255'' \<noteq> []" "list_all is_digit ''255''" "''10'' \<noteq> []" "list_all is_digit ''10''"
    "''2'' \<noteq> []" "list_all is_digit ''2''"
    by (simp_all add: is_digit_def)
  have c: "\<not> py_contains ''COMMENT ON '' ''a ''"
    "CHR '';'' \<notin> set (''COLUMN x IS '' @ [quote] @ ''desc'' @ [quote])"
    by (simp_all add: quote_def)
  note t = translator_rewrites_every_occurrence [OF d c, of _ "'' b''" "''name ''" "'',''"]
  have e: "convert_postgres_to_sqlite ''VARCHAR(255)'' = ''TEXT''"
    "convert_postgres_to_sqlite ''DECIMAL(10,2)'' = ''REAL''"
    "convert_postgres_to_sqlite (''COMMENT ON COLUMN x IS '' @ [quote] @ ''desc'' @ [quote] @ '';'') = []"
    "convert_postgres_to_sqlite ''a BIGINT, b BOOLEAN'' = ''a INTEGER, b INTEGER''"
    by (simp_all add: translator_eval)
  show ?thesis using d c t e by blast
qed

section \<open>Properties of the batch execution\<close>

lemma log_failure_fields [simp]:
  "db (log_failure fp s e f st) = db st" "calls (log_failure fp s e f st) = calls st"
  by (simp_all add: log_failure_def log_line_def)

lemma log_failure_lines:
  "\<exists>new. logged (log_failure fp s e f st) = logged st @ new
     \<and> length (filter is_detail new) = (if f \<le> 10 then 1 else 0)
     \<and> length (filter is_preview new) = (if f \<le> 10 then 1 else 0)
     \<and> length (filter is_suppression new) = (if f = 11 then 1 else 0)"
  by (simp add: log_failure_def log_line_def is_detail_def is_preview_def is_suppression_def)

lemma execute_statements_skip:
  "\<not> kept_line (py_strip chunk) \<Longrightarrow>
     execute_statements exec fp (chunk # chunks) x = execute_statements exec fp chunks x"
  by (cases x) (auto simp: kept_line_def Let_def)

lemma execute_statements_step:
  "kept_line (py_strip chunk) \<Longrightarrow>
     execute_statements exec fp (chunk # chunks) (st, ok, failed) =
       (case exec (db st) (py_strip chunk) of
          Done db' \<Rightarrow>
            execute_statements exec fp chunks
              (st\<lparr>db := db', calls := calls st @ [py_strip chunk]\<rparr>, ok + 1, failed)
        | SqliteError db' e \<Rightarrow>
            execute_statements exec fp chunks
              (log_failure fp (py_strip chunk) e (failed + 1)
                 (st\<lparr>db := db', calls := calls st @ [py_strip chunk]\<rparr>), ok, failed + 1)
        | Raised e \<Rightarrow> Inl (e, st\<lparr>calls := calls st @ [py_strip chunk]\<rparr>))"
  by (simp add: kept_line_def Let_def)

declare execute_statements.simps(2) [simp del]



lemma execute_statements_run:
  assumes "\<And>d s x. exec d s \<noteq> Raised x"
  shows "\<exists>st' ok' failed' new.
     execute_statements exec fp chunks (st, ok, failed) = Inr (st', ok', failed')
     \<and> ok \<le> ok' \<and> failed \<le> failed'
     \<and> (ok' - ok) + (failed' - failed) = length (filter kept_line (map py_strip chunks))
     \<and> calls st' = calls st @ filter kept_line (map py_strip chunks)
     \<and> logged st' = logged st @ new
     \<and> length (filter is_detail new) = min failed' 10 - min failed 10
     \<and> length (filter is_preview new) = min failed' 10 - min failed 10
     \<and> length (filter is_suppression new) = (if failed \<le> 10 \<and> 10 < failed' then 1 else 0)"
proof (induction chunks arbitrary: st ok failed)
  case Nil
  then show ?case by simp
next
  case (Cons chunk chunks)
  show ?case
  proof (cases "kept_line (py_strip chunk)")
    case False
    then show ?thesis using Cons [of st ok failed] by (simp add: execute_statements_skip)
  next
    case True
    show ?thesis
    proof (cases "exec (db st) (py_strip chunk)")
      case (Done d')
      from Cons [of "st\<lparr>db := d', calls := calls st @ [py_strip chunk]\<rparr>" "ok + 1" failed]
      obtain st' ok' failed' new where
        "execute_statements exec fp chunks (st\<lparr>db := d', calls := calls st @ [py_strip chunk]\<rparr>, ok + 1, failed)
           = Inr (st', ok', failed')"
        "ok + 1 \<le> ok'" "failed \<le> failed'"
        "(ok' - (ok + 1)) + (failed' - failed) = length (filter kept_line (map py_strip chunks))"
        "calls st' = calls st @ py_strip chunk # filter kept_line (map py_strip chunks)"
        "logged st' = logged st @ new"
        "length (filter is_detail new) = min failed' 10 - min failed 10"
        "length (filter is_preview new) = min failed' 10 - min failed 10"
        "length (filter is_suppression new) = (if failed \<le> 10 \<and> 10 < failed' then 1 else 0)"
        by auto
      then show ?thesis using True Done
        by (intro exI [of _ st'] exI [of _ ok'] exI [of _ failed'] exI [of _ new])
          (simp add: execute_statements_step)
    next
      case (SqliteError d' e)
      let ?st = "log_failure fp (py_strip chunk) e (failed + 1) (st\<lparr>db := d', calls := calls st @ [py_strip chunk]\<rparr>)"
      obtain new1 where n1: "logged ?st = logged st @ new1"
        "length (filter is_detail new1) = (if failed + 1 \<le> 10 then 1 else 0)"
        "length (filter is_preview new1) = (if failed + 1 \<le> 10 then 1 else 0)"
        "length (filter is_suppression new1) = (if failed + 1 = 11 then 1 else 0)"
        using log_failure_lines [of fp "py_strip chunk" e "failed + 1" "st\<lparr>db := d', calls := calls st @ [py_strip chunk]\<rparr>"]
        by auto
      from Cons [of ?st ok "failed + 1"]
      obtain st' ok' failed' new where r:
        "execute_statements exec fp chunks (?st, ok, failed + 1) = Inr (st', ok', failed')"
        "ok \<le> ok'" "failed + 1 \<le> failed'"
        "(ok' - ok) + (failed' - (failed + 1)) = length (filter kept_line (map py_strip chunks))"
        "calls st' = calls st @ py_strip chunk # filter kept_line (map py_strip chunks)"
        "logged st' = logged ?st @ new"
        "length (filter is_detail new) = min failed' 10 - min (failed + 1) 10"
        "length (filter is_preview new) = min failed' 10 - min (failed + 1) 10"
        "length (filter is_suppression new) = (if failed + 1 \<le> 10 \<and> 10 < failed' then 1 else 0)"
        by auto
      have "execute_statements exec fp (chunk # chunks) (st, ok, failed) = Inr (st', ok', failed')"
        using True SqliteError r(1) by (simp add: execute_statements_step)
      moreover have "logged st' = logged st @ (new1 @ new)" using r(6) n1(1) by simp
      moreover have "length (filter is_detail (new1 @ new)) = min failed' 10 - min failed 10"
        using n1(2) r(7) r(3) by (auto simp: min_def)
      moreover have "length (filter is_preview (new1 @ new)) = min failed' 10 - min failed 10"
        using n1(3) r(8) r(3) by (auto simp: min_def)
      moreover have "length (filter is_suppression (new1 @ new)) = (if failed \<le> 10 \<and> 10 < failed' then 1 else 0)"
        using n1(4) r(9) r(3) by (auto simp: min_def)
      moreover have "(ok' - ok) + (failed' - failed) = length (filter kept_line (map py_strip (chunk # chunks)))"
        using r(2,3,4) True by simp
      ultimately show ?thesis using r(2,3,5) True
        by (intro exI [of _ st'] exI [of _ ok'] exI [of _ failed'] exI [of _ "new1 @ new"]) simp
    next
      case (Raised x)
      then show ?thesis using assms by simp
    qed
  qed
qed


lemma execute_statements_db:
  assumes "\<And>d s x. exec d s \<noteq> Raised x"
  shows "execute_statements exec fp chunks (st, ok, failed) = Inr (st', ok', failed') \<Longrightarrow>
     db st' = run_each exec (filter kept_line (map py_strip chunks)) (db st)"
proof (induction chunks arbitrary: st ok failed)
  case Nil
  then show ?case by simp
next
  case (Cons chunk chunks)
  show ?case
  proof (cases "kept_line (py_strip chunk)")
    case False
    then show ?thesis using Cons.IH [of st ok failed] Cons.prems
      by (simp add: execute_statements_skip)
  next
    case True
    show ?thesis
    proof (cases "exec (db st) (py_strip chunk)")
      case (Done d')
      then show ?thesis
        using True Cons.prems
          Cons.IH [of "st\<lparr>db := d', calls := calls st @ [py_strip chunk]\<rparr>" "ok + 1" failed]
        by (simp add: execute_statements_step)
    next
      case (SqliteError d' e)
      then show ?thesis
        using True Cons.prems
          Cons.IH [of "log_failure fp (py_strip chunk) e (failed + 1)
            (st\<lparr>db := d', calls := calls st @ [py_strip chunk]\<rparr>)" ok "failed + 1"]
        by (simp add: execute_statements_step)
    next
      case (Raised x)
      then show ?thesis using assms by simp
    qed
  qed
qed




lemma statements_without_semicolon: "list_all (\<lambda>s. CHR '';'' \<notin> set s) (kept_statements sql)"
  using split_on_pieces [of _ "CHR '';''" sql] set_py_strip
  by (fastforce simp: kept_statements_def list_all_iff)
















lemma statement_by_statement_run:
  assumes "\<And>d s x. exec d s \<noteq> Raised x"
  shows "\<exists>st'. statement_by_statement exec fp sql st = Inr st'
     \<and> calls st' = calls st @ kept_statements sql
     \<and> db st' = run_each exec (kept_statements sql) (db st)"
proof -
  have "\<exists>st' ok' failed' new.
     execute_statements exec fp (split_on (CHR '';'') sql) (st, 0, 0) = Inr (st', ok', failed')
     \<and> 0 \<le> ok' \<and> 0 \<le> failed'
     \<and> (ok' - 0) + (failed' - 0) = length (filter kept_line (map py_strip (split_on (CHR '';'') sql)))
     \<and> calls st' = calls st @ filter kept_line (map py_strip (split_on (CHR '';'') sql))
     \<and> logged st' = logged st @ new
     \<and> length (filter is_detail new) = min failed' 10 - min 0 10
     \<and> length (filter is_preview new) = min failed' 10 - min 0 10
     \<and> length (filter is_suppression new) = (if 0 \<le> (10::nat) \<and> 10 < failed' then 1 else 0)"
    by (rule execute_statements_run) (rule assms)
  then obtain st' successful failed where
    r: "execute_statements exec fp (split_on (CHR '';'') sql) (st, 0, 0) = Inr (st', successful, failed)"
    and c: "calls st' = calls st @ kept_statements sql"
    by (auto simp: kept_statements_def)
  have d: "db st' = run_each exec (kept_statements sql) (db st)"
    using execute_statements_db [where exec = exec, OF assms r] by (simp add: kept_statements_def)
  show ?thesis using r c d by (simp add: statement_by_statement_def log_line_def Let_def)
qed

text \<open>
  C10: when the whole-script execution of an insert file fails with an SQLite error, the
  statements passed to the engine are exactly the stripped chunks of the translated
  script between semicolons that are not empty and do not start with two dashes, in
  order, and the database is what executing them one after the other leaves, from the
  database the failed whole-script execution left.  None of them contains a semicolon, so
  a statement whose quoted string holds a semicolon is never executed whole.
\<close>

theorem fallback_splits_on_every_semicolon:
  assumes "suffix ''_insert.sql'' file_path" "read_file file_path = Inr content"
    and "executescript eng (db st) (convert_postgres_to_sqlite content) = SqliteError d1 e"
    and "\<forall>d s x. execute eng d s \<noteq> Raised x"
  shows "\<exists>st'. execute_sql_file eng read_file file_path st = Inr st'
     \<and> calls st' = calls st @ filter kept_line
          (map py_strip (split_on (CHR '';'') (convert_postgres_to_sqlite content)))
     \<and> db st' = run_each (execute eng) (filter kept_line
          (map py_strip (split_on (CHR '';'') (convert_postgres_to_sqlite content)))) d1
     \<and> list_all (\<lambda>s. CHR '';'' \<notin> set s) (drop (length (calls st)) (calls st'))"
proof -
  let ?sql = "convert_postgres_to_sqlite content"
  let ?st = "log_line INFO ''Falling back to statement-by-statement execution...''
     (log_line WARNING (''executescript failed for '' @ file_path @ '': '' @ e)
        ((log_line INFO (''Executing SQL file: '' @ file_path) st)\<lparr>db := d1\<rparr>))"
  have nr: "\<And>d s x. execute eng d s \<noteq> Raised x" using assms(4) by blast
  have "\<exists>st'. statement_by_statement (execute eng) file_path ?sql ?st = Inr st'
     \<and> calls st' = calls ?st @ kept_statements ?sql
     \<and> db st' = run_each (execute eng) (kept_statements ?sql) (db ?st)"
    by (rule statement_by_statement_run) (rule nr)
  then obtain st' where r: "statement_by_statement (execute eng) file_path ?sql ?st = Inr st'"
    and c: "calls st' = calls ?st @ kept_statements ?sql"
    and d: "db st' = run_each (execute eng) (kept_statements ?sql) (db ?st)" by blast
  have "execute_sql_file eng read_file file_path st = Inr st'"
    using assms(1,2,3) r by (simp add: execute_sql_file_def Let_def log_line_def)
  moreover have "calls st' = calls st @ kept_statements ?sql"
    using c by (simp add: log_line_def)
  moreover have "db st' = run_each (execute eng) (kept_statements ?sql) d1"
    using d by (simp add: log_line_def)
  ultimately show ?thesis
    using statements_without_semicolon [of ?sql] by (auto simp: kept_statements_def)
qed

lemma convert_insert_example:
  "convert_postgres_to_sqlite (''INSERT INTO t VALUES ('' @ [quote] @ ''a;b'' @ [quote] @ '');'')
     = ''INSERT INTO t VALUES ('' @ [quote] @ ''a;b'' @ [quote] @ '');''"
  by (simp add: translator_eval)

theorem fallback_splits_on_every_semicolon_witness:
  "suffix ''_insert.sql'' ''t_insert.sql''
   \<and> executescript failing_script_engine (db empty_session)
        (convert_postgres_to_sqlite (''INSERT INTO t VALUES ('' @ [quote] @ ''a;b'' @ [quote] @ '');''))
       = SqliteError [] ''script error''
   \<and> (\<forall>d s x. execute failing_script_engine d s \<noteq> Raised x)
   \<and> (\<exists>st'. execute_sql_file failing_script_engine
          (\<lambda>path. Inr (''INSERT INTO t VALUES ('' @ [quote] @ ''a;b'' @ [quote] @ '');''))
          ''t_insert.sql'' empty_session = Inr st'
        \<and> calls st' = [''INSERT INTO t VALUES ('' @ [quote] @ ''a'', ''b'' @ [quote] @ '')'']
        \<and> db st' = [''INSERT INTO t VALUES ('' @ [quote] @ ''a'', ''b'' @ [quote] @ '')''])"
proof -
  let ?content = "''INSERT INTO t VALUES ('' @ [quote] @ ''a;b'' @ [quote] @ '');''"
  have h1: "suffix ''_insert.sql'' ''t_insert.sql''"
    by (simp add: suffix_def)
  have h2: "(\<lambda>path. Inr ?content) ''t_insert.sql'' = (Inr ?content :: string + string)"
    by simp
  have h3: "executescript failing_script_engine (db empty_session) (convert_postgres_to_sqlite ?content)
       = SqliteError [] ''script error''"
    by (simp add: failing_script_engine_def empty_session_def)
  have h4: "\<forall>d s x. execute failing_script_engine d s \<noteq> Raised x"
    by (simp add: failing_script_engine_def recording_execute_def)
  have s: "filter kept_line (map py_strip (split_on (CHR '';'') (convert_postgres_to_sqlite ?content)))
       = [''INSERT INTO t VALUES ('' @ [quote] @ ''a'', ''b'' @ [quote] @ '')'']"
    by (subst convert_insert_example) (simp add: kept_line_def py_strip_def py_isspace_def quote_def)
  have e: "run_each (execute failing_script_engine)
       [''INSERT INTO t VALUES ('' @ [quote] @ ''a'', ''b'' @ [quote] @ '')''] []
       = [''INSERT INTO t VALUES ('' @ [quote] @ ''a'', ''b'' @ [quote] @ '')'']"
    by (simp add: failing_script_engine_def recording_execute_def quote_def)
  from fallback_splits_on_every_semicolon [OF h1 h2 h3 h4]
  obtain st' where r: "execute_sql_file failing_script_engine (\<lambda>path. Inr ?content) ''t_insert.sql'' empty_session = Inr st'"
    and c: "calls st' = calls empty_session @ [''INSERT INTO t VALUES ('' @ [quote] @ ''a'', ''b'' @ [quote] @ '')'']"
    and d: "db st' = [''INSERT INTO t VALUES ('' @ [quote] @ ''a'', ''b'' @ [quote] @ '')'']"
    unfolding s e by blast
  show ?thesis using h1 h3 h4 r c d by (auto simp: empty_session_def)
qed

section \<open>Properties of the query catalogue\<close>

lemma sql_limit_length: "0 \<le> n \<Longrightarrow> int (length (sql_limit n rows)) \<le> n"
  by (simp add: sql_limit_def min_def le_nat_iff)

lemma sql_limit_numeral: "length (sql_limit (numeral k) rows) \<le> numeral k"
  by (simp add: sql_limit_def)

text \<open>
  C4 as stated fails: \<^verbatim>\<open>get_recent_models\<close> and \<^verbatim>\<open>get_models_by_domain\<close> with a domain take
  no row limit and return every row the database yields, here a thousand, more than any
  limit or default of the catalogue.
\<close>

theorem recent_models_not_limited:
  "length (get_recent_models (\<lambda>q ps. replicate 1000 ()) None) = 1000
   \<and> length (get_models_by_domain (\<lambda>q ps. replicate 1000 ()) (Some ''Language'')) = 1000"
  by (simp add: get_recent_models_def get_models_by_domain_def)

text \<open>
  C4, amended: the four queries by year, by size, by organization and of frontier models
  take an optional row limit with the defaults 10, 10, 10 and 20 and return at most that
  many records when the limit is not negative; the domain distribution, the training-cost
  analysis and the search take no row limit and return at most 15, 20 and 50 records; the
  recent-models query and the query of one domain return every record the database yields.
\<close>

theorem query_row_limits:
  "(0 \<le> n \<longrightarrow>
       int (length (get_models_by_year dbase (Some n))) \<le> n
     \<and> int (length (get_largest_models dbase (Some n))) \<le> n
     \<and> int (length (get_models_by_organization dbase (Some n))) \<le> n
     \<and> int (length (get_frontier_models dbase (Some n))) \<le> n)
   \<and> length (get_models_by_year dbase None) \<le> 10
   \<and> length (get_largest_models dbase None) \<le> 10
   \<and> length (get_models_by_organization dbase None) \<le> 10
   \<and> length (get_frontier_models dbase None) \<le> 20
   \<and> length (get_models_by_domain dbase None) \<le> 15
   \<and> length (get_training_cost_analysis dbase) \<le> 20
   \<and> length (search_models dbase search_term) \<le> 50
   \<and> get_recent_models dbase days = dbase RecentModels [SqlInt (arg_or 365 days)]
   \<and> (d \<noteq> [] \<longrightarrow> get_models_by_domain dbase (Some d) = dbase ModelsInDomain [SqlText (''%'' @ d @ ''%'')])"
  by (simp add: get_models_by_year_def get_largest_models_def get_models_by_organization_def
      get_frontier_models_def get_models_by_domain_def get_training_cost_analysis_def
      search_models_def get_recent_models_def sql_limit_length sql_limit_numeral arg_or_def Let_def)

theorem query_row_limits_witness:
  "(0::int) \<le> 3
   \<and> length (get_models_by_year (\<lambda>q ps. replicate 1000 ()) (Some 3)) = 3
   \<and> length (get_largest_models (\<lambda>q ps. replicate 1000 ()) (Some 3)) = 3
   \<and> length (get_frontier_models (\<lambda>q ps. replicate 1000 ()) None) = 20
   \<and> int (length (get_frontier_models (\<lambda>q ps. replicate 1000 ()) (Some 3))) \<le> 3
   \<and> ''Language'' \<noteq> []
   \<and> get_models_by_domain (\<lambda>q ps. replicate 1000 ()) (Some ''Language'') = replicate 1000 ()"
  using query_row_limits [of 3 "\<lambda>q ps. replicate 1000 ()" _ _ "''Language''"]
  by (simp add: get_models_by_year_def get_largest_models_def get_frontier_models_def
      sql_limit_def arg_or_def)

end
